theory Spec2Isabelle
  imports Complex_Main
begin

section \<open>Errors\<close>

text \<open>
  Every exception the two modules can raise is a value. A failed \<^verbatim>\<open>assert\<close> carries
  its message; \<^verbatim>\<open>InvalidArgumentError\<close> is what the tensor library raises for a slice
  that does not fit its input; \<^verbatim>\<open>TypeError\<close> is Python's own error for adding
  \<^verbatim>\<open>None\<close> to a string.
\<close>

datatype error =
    AssertionError string
  | ValueError
  | IndexError
  | TypeError
  | NotImplementedError string
  | InvalidArgumentError

section \<open>Tensors of rank two and the library's slice\<close>

text \<open>
  A parsed example \<^verbatim>\<open>x\<close> has shape \<^verbatim>\<open>[time_steps, features]\<close>, a batch of labels
  or predictions has shape \<^verbatim>\<open>[batch, classes]\<close>. The record keeps the shape beside
  the rows, so that a tensor with no row still has a second dimension.
\<close>

record 'a tensor2 =
  dim0 :: nat
  dim1 :: nat
  elems :: "'a list list"

definition wf_tensor :: "'a tensor2 \<Rightarrow> bool" where
  "wf_tensor t = (length (elems t) = dim0 t \<and> list_all (\<lambda>r. length r = dim1 t) (elems t))"

text \<open>
  \<^verbatim>\<open>tf.slice(input, begin, size)\<close> as the tensor library documents it: in each
  dimension \<^verbatim>\<open>size\<close> elements from \<^verbatim>\<open>begin\<close> on, where the size \<^verbatim>\<open>-1\<close> stands for
  all the remaining elements; the library requires
  \<^verbatim>\<open>0 <= begin <= begin + size <= dim\<close> and raises otherwise.
\<close>

definition slice_extent :: "nat \<Rightarrow> int \<Rightarrow> int \<Rightarrow> error + (nat \<times> nat)" where
  "slice_extent d b s =
     (let s' = (if s = -1 then int d - b else s)
      in if 0 \<le> b \<and> 0 \<le> s' \<and> b + s' \<le> int d then Inr (nat b, nat s')
         else Inl InvalidArgumentError)"

definition tf_slice :: "'a tensor2 \<Rightarrow> int \<times> int \<Rightarrow> int \<times> int \<Rightarrow> error + 'a tensor2" where
  "tf_slice t begin sz =
     (case slice_extent (dim0 t) (fst begin) (fst sz) of
        Inl e \<Rightarrow> Inl e
      | Inr (b0, s0) \<Rightarrow>
          (case slice_extent (dim1 t) (snd begin) (snd sz) of
             Inl e \<Rightarrow> Inl e
           | Inr (b1, s1) \<Rightarrow>
               Inr \<lparr>dim0 = s0, dim1 = s1,
                    elems = map (\<lambda>r. take s1 (drop b1 r)) (take s0 (drop b0 (elems t)))\<rparr>))"

section \<open>load_datasets.py\<close>

subsection \<open>Command line flags\<close>

record flags =
  train_batch :: int
  eval_batch :: int
  shuffle_buffer :: int
  prefetch_buffer :: int
  tune_num_parallel_calls :: bool
  eval_shuffle_seed :: int
  eval_max_examples :: int
  trim_time_steps :: int
  feature_subset :: int
  dropout :: real

definition default_flags :: flags where
  "default_flags =
     \<lparr>train_batch = 128, eval_batch = 4096, shuffle_buffer = 60000, prefetch_buffer = 1,
      tune_num_parallel_calls = False, eval_shuffle_seed = 0, eval_max_examples = 0,
      trim_time_steps = 0, feature_subset = 0, dropout = 5 / 100\<rparr>"

subsection \<open>The input pipeline as data\<close>

text \<open>
  A \<^verbatim>\<open>tf.data\<close> pipeline is a chain of stages; the loader builds the chain and never
  runs it, so the model is the list of stages in the order the loader applies them.
  \<^verbatim>\<open>Interleave_tfrecords filenames cycle_length block_length\<close> reads each file as a
  GZIP-compressed record dataset with a prefetch of 100, as the source fixes it;
  \<^verbatim>\<open>Shuffle buffer seed\<close> has no seed when the source gives none; \<^verbatim>\<open>Map_parse\<close> maps
  \<^verbatim>\<open>_parse_example_function\<close> with the given \<^verbatim>\<open>num_parallel_calls\<close>.
\<close>

datatype buffer_size = AUTOTUNE | Size int

datatype stage =
    Interleave_tfrecords "string list" nat nat
  | Take int
  | Shuffle int "int option"
  | Repeat
  | Map_parse "buffer_size option"
  | Batch int
  | Prefetch buffer_size

type_synonym pipeline = "stage list"

subsection \<open>The Dataset class\<close>

record Dataset =
  invert_name :: "string option"
  num_classes :: int
  class_labels :: "string list"
  num_domains :: int
  ds_train_batch :: int
  ds_eval_batch :: int
  ds_shuffle_buffer :: int
  ds_prefetch_buffer :: int
  ds_eval_shuffle_seed :: int
  ds_eval_max_examples :: int
  ds_tune_num_parallel_calls :: bool
  train :: "pipeline option"
  train_evaluation :: "pipeline option"
  test_evaluation :: "pipeline option"

text \<open>The keyword arguments of the constructor that default to \<^verbatim>\<open>None\<close>.\<close>

record dataset_kwargs =
  kw_train_batch :: "int option"
  kw_eval_batch :: "int option"
  kw_shuffle_buffer :: "int option"
  kw_prefetch_buffer :: "int option"
  kw_eval_shuffle_seed :: "int option"
  kw_eval_max_examples :: "int option"
  kw_tune_num_parallel_calls :: "bool option"

definition no_kwargs :: dataset_kwargs where
  "no_kwargs =
     \<lparr>kw_train_batch = None, kw_eval_batch = None, kw_shuffle_buffer = None,
      kw_prefetch_buffer = None, kw_eval_shuffle_seed = None, kw_eval_max_examples = None,
      kw_tune_num_parallel_calls = None\<rparr>"


text \<open>
  \<^verbatim>\<open>Dataset.load_tfrecords\<close>: \<^verbatim>\<open>None\<close> for an empty list of files, the pipeline
  otherwise. Only the fields of \<^verbatim>\<open>self\<close> that the method reads are arguments.
\<close>

definition load_tfrecords ::
  "int \<Rightarrow> int \<Rightarrow> int \<Rightarrow> int \<Rightarrow> bool \<Rightarrow> string list \<Rightarrow> int \<Rightarrow> bool \<Rightarrow> bool \<Rightarrow> pipeline option" where
  "load_tfrecords s_eval_max_examples s_shuffle_buffer s_eval_shuffle_seed s_prefetch_buffer
       s_tune_num_parallel_calls filenames batch_size count evaluation =
     (if length filenames = 0 then None
      else
        Some
          ([Interleave_tfrecords filenames (length filenames) 1]
           @ (if evaluation \<and> s_eval_max_examples \<noteq> 0 then [Take s_eval_max_examples] else [])
           @ (if count then []
              else if evaluation then [Shuffle s_shuffle_buffer (Some s_eval_shuffle_seed)]
              else [Shuffle s_shuffle_buffer None, Repeat])
           @ [Map_parse (if s_tune_num_parallel_calls then Some AUTOTUNE else None),
              Batch batch_size,
              Prefetch (if s_prefetch_buffer = 0 then AUTOTUNE else Size s_prefetch_buffer)]))"

text \<open>
  The constructor. The keys of \<^verbatim>\<open>inversions.map_to_source\<close> and
  \<^verbatim>\<open>inversions.map_to_target\<close> live in a module outside these two files and are
  arguments.
\<close>

definition or_default :: "'a option \<Rightarrow> 'a \<Rightarrow> 'a" where
  "or_default v d = (case v of None \<Rightarrow> d | Some a \<Rightarrow> a)"

definition Dataset_init ::
  "flags \<Rightarrow> string list \<Rightarrow> string list \<Rightarrow> int \<Rightarrow> string list \<Rightarrow> int \<Rightarrow> string list \<Rightarrow>
   string list \<Rightarrow> string option \<Rightarrow> dataset_kwargs \<Rightarrow> error + Dataset" where
  "Dataset_init FLAGS map_to_source map_to_target n_classes labels n_domains
       train_filenames test_filenames inv_name kw =
     (if n_classes \<noteq> int (length labels) then
        Inl (AssertionError ''num_classes != len(class_labels)'')
      else if inv_name \<noteq> None \<and> the inv_name \<notin> set map_to_source then
        Inl (AssertionError ''If invertible, must specify map_to_source() in datasets.inversions'')
      else if inv_name \<noteq> None \<and> the inv_name \<notin> set map_to_target then
        Inl (AssertionError ''If invertible, must specify map_to_target() in datasets.inversions'')
      else
        (let tb = or_default (kw_train_batch kw) (train_batch FLAGS);
             eb = or_default (kw_eval_batch kw) (eval_batch FLAGS);
             sb = or_default (kw_shuffle_buffer kw) (shuffle_buffer FLAGS);
             pb = or_default (kw_prefetch_buffer kw) (prefetch_buffer FLAGS);
             es = or_default (kw_eval_shuffle_seed kw) (eval_shuffle_seed FLAGS);
             em = or_default (kw_eval_max_examples kw) (eval_max_examples FLAGS);
             tn = or_default (kw_tune_num_parallel_calls kw) (tune_num_parallel_calls FLAGS)
         in Inr \<lparr>invert_name = inv_name, num_classes = n_classes, class_labels = labels,
                 num_domains = n_domains, ds_train_batch = tb, ds_eval_batch = eb,
                 ds_shuffle_buffer = sb, ds_prefetch_buffer = pb, ds_eval_shuffle_seed = es,
                 ds_eval_max_examples = em, ds_tune_num_parallel_calls = tn,
                 train = load_tfrecords em sb es pb tn train_filenames tb False False,
                 train_evaluation = load_tfrecords em sb es pb tn train_filenames eb False True,
                 test_evaluation = load_tfrecords em sb es pb tn test_filenames eb False True\<rparr>))"

text \<open>
  \<^verbatim>\<open>list.index\<close> returns the first position of the value and raises
  \<^verbatim>\<open>ValueError\<close> when it is absent; indexing a list accepts a negative index,
  counted from the end, and raises \<^verbatim>\<open>IndexError\<close> out of range.
\<close>

fun list_index :: "'a list \<Rightarrow> 'a \<Rightarrow> nat option" where
  "list_index [] v = None"
| "list_index (x # xs) v = (if x = v then Some 0 else map_option Suc (list_index xs v))"

definition list_getitem :: "'a list \<Rightarrow> int \<Rightarrow> error + 'a" where
  "list_getitem xs i =
     (if 0 \<le> i \<and> i < int (length xs) then Inr (xs ! nat i)
      else if i < 0 \<and> - int (length xs) \<le> i then Inr (xs ! nat (int (length xs) + i))
      else Inl IndexError)"

definition label_to_int :: "Dataset \<Rightarrow> string \<Rightarrow> error + int" where
  "label_to_int self label_name =
     (case list_index (class_labels self) label_name of
        None \<Rightarrow> Inl ValueError
      | Some i \<Rightarrow> Inr (int i))"

definition int_to_label :: "Dataset \<Rightarrow> int \<Rightarrow> error + string" where
  "int_to_label self label_index = list_getitem (class_labels self) label_index"

subsection \<open>load and load_da\<close>

text \<open>
  What the loader reads from outside these two files: the flags, the registry
  \<^verbatim>\<open>datasets.datasets\<close> with its printed form, \<^verbatim>\<open>datasets.names()\<close>,
  \<^verbatim>\<open>tfrecord_filename\<close>, the file system behind \<^verbatim>\<open>os.path.exists\<close>, and the keys of
  the two inversion tables.
\<close>

record dataset_info =
  info_num_classes :: int
  info_class_labels :: "string list"
  info_invertible :: bool

record env =
  env_flags :: flags
  datasets :: "string \<Rightarrow> dataset_info option"
  datasets_str :: string
  datasets_names :: "string list"
  tfrecord_filename :: "string \<Rightarrow> string \<Rightarrow> string"
  path_exists :: "string \<Rightarrow> bool"
  map_to_source :: "string list"
  map_to_target :: "string list"

definition os_path_join :: "string \<Rightarrow> string \<Rightarrow> string" where
  "os_path_join a b =
     (case b of
        c # _ \<Rightarrow> if c = CHR ''/'' then b
                 else if a = [] \<or> last a = CHR ''/'' then a @ b else a @ ''/'' @ b
      | [] \<Rightarrow> if a = [] \<or> last a = CHR ''/'' then a else a @ ''/'')"

definition path_list :: "env \<Rightarrow> string \<Rightarrow> string list" where
  "path_list e filename =
     (let fn = os_path_join ''datasets'' filename
      in if path_exists e fn then [fn] else [])"

definition load :: "env \<Rightarrow> string \<Rightarrow> int \<Rightarrow> bool \<Rightarrow> dataset_kwargs \<Rightarrow> error + Dataset" where
  "load e dataset_name n_domains test kw =
     (case datasets e dataset_name of
        None \<Rightarrow>
          Inl (AssertionError (dataset_name @ '' not a supported dataset, only '' @ datasets_str e))
      | Some info \<Rightarrow>
          (let inv_name = (if info_invertible info then Some dataset_name else None);
               train_filenames = path_list e (tfrecord_filename e dataset_name ''train'');
               valid_filenames = path_list e (tfrecord_filename e dataset_name ''valid'');
               test_filenames = path_list e (tfrecord_filename e dataset_name ''test'')
           in if \<not> test then
                Dataset_init (env_flags e) (map_to_source e) (map_to_target e)
                  (info_num_classes info) (info_class_labels info) n_domains
                  train_filenames valid_filenames inv_name kw
              else
                Dataset_init (env_flags e) (map_to_source e) (map_to_target e)
                  (info_num_classes info) (info_class_labels info) n_domains
                  (train_filenames @ valid_filenames) test_filenames inv_name kw))"

text \<open>\<^verbatim>\<open>str.split(sep)\<close> for a separator of one character: never an empty list.\<close>

fun split_on :: "char \<Rightarrow> string \<Rightarrow> string list" where
  "split_on c [] = [[]]"
| "split_on c (x # xs) =
     (if x = c then [] # split_on c xs
      else (case split_on c xs of w # ws \<Rightarrow> (x # w) # ws | [] \<Rightarrow> [[x]]))"

fun str_nat :: "nat \<Rightarrow> string" where
  "str_nat n =
     (if n < 10 then [char_of (48 + n)] else str_nat (n div 10) @ [char_of (48 + n mod 10)])"

text \<open>The loop of assertions over the source names: the first unknown name raises.\<close>

fun check_sources :: "string list \<Rightarrow> string list \<Rightarrow> error option" where
  "check_sources valid_names [] = None"
| "check_sources valid_names (s # ss) =
     (if s \<in> set valid_names then check_sources valid_names ss
      else Some (AssertionError (''unknown source domain: '' @ s)))"

text \<open>
  The loop that loads the sources. The second component is the list of the names
  \<^verbatim>\<open>load\<close> has been called with so far, in order: the file system is read by each call.
\<close>

fun load_each ::
  "env \<Rightarrow> int \<Rightarrow> bool \<Rightarrow> dataset_kwargs \<Rightarrow> string list \<Rightarrow> string list \<Rightarrow>
   (error + Dataset list) \<times> string list" where
  "load_each e n_domains test kw [] loaded = (Inr [], loaded)"
| "load_each e n_domains test kw (s # ss) loaded =
     (case load e s n_domains test kw of
        Inl err \<Rightarrow> (Inl err, loaded @ [s])
      | Inr d \<Rightarrow>
          (case load_each e n_domains test kw ss (loaded @ [s]) of
             (Inl err, loaded') \<Rightarrow> (Inl err, loaded')
           | (Inr ds, loaded') \<Rightarrow> (Inr (d # ds), loaded')))"

fun check_classes :: "nat \<Rightarrow> Dataset list \<Rightarrow> Dataset \<Rightarrow> error option" where
  "check_classes i [] target_dataset = None"
| "check_classes i (s # ss) target_dataset =
     (if num_classes s = num_classes target_dataset then check_classes (Suc i) ss target_dataset
      else Some (AssertionError (''Adapting from source '' @ str_nat i
                   @ '' to target with different classes not supported'')))"

text \<open>
  \<^verbatim>\<open>load_da\<close>. Assertions are executed. The message of the assertion on the target
  is built only when the assertion fails, and building it from \<^verbatim>\<open>None\<close> raises
  \<^verbatim>\<open>TypeError\<close> in place of the \<^verbatim>\<open>AssertionError\<close>. The branches for a missing target
  stand as the source has them.
\<close>

definition load_da ::
  "env \<Rightarrow> string \<Rightarrow> string \<Rightarrow> string option \<Rightarrow> bool \<Rightarrow> dataset_kwargs \<Rightarrow>
   (error + (Dataset list \<times> Dataset option)) \<times> string list" where
  "load_da e dataset sources target test kw =
     (let sources' = map (\<lambda>x. dataset @ ''_'' @ x) (split_on CHR '','' sources);
          target' = (case target of None \<Rightarrow> None | Some t \<Rightarrow> Some (dataset @ ''_'' @ t));
          n_domains = int (length sources') + (if target' \<noteq> None then 1 else 0);
          valid_names = datasets_names e
      in case check_sources valid_names sources' of
           Some err \<Rightarrow> (Inl err, [])
         | None \<Rightarrow>
             if \<not> (case target' of None \<Rightarrow> False | Some t \<Rightarrow> t \<in> set valid_names) then
               (case target' of
                  None \<Rightarrow> (Inl TypeError, [])
                | Some t \<Rightarrow> (Inl (AssertionError (''unknown target domain: '' @ t)), []))
             else
               (case load_each e n_domains test kw sources' [] of
                  (Inl err, loaded) \<Rightarrow> (Inl err, loaded)
                | (Inr source_datasets, loaded) \<Rightarrow>
                    (case target' of
                       Some t \<Rightarrow>
                         (case load e t n_domains test kw of
                            Inl err \<Rightarrow> (Inl err, loaded @ [t])
                          | Inr target_dataset \<Rightarrow>
                              (case check_classes 0 source_datasets target_dataset of
                                 Some err \<Rightarrow> (Inl err, loaded @ [t])
                               | None \<Rightarrow>
                                   (Inr (source_datasets, Some target_dataset), loaded @ [t])))
                     | None \<Rightarrow> (Inr (source_datasets, None), loaded))))"

text \<open>
  An environment to run the loader in: two domains of one dataset are registered, and
  only the training file of the first one is on disk.
\<close>

definition example_env :: env where
  "example_env =
     \<lparr>env_flags = default_flags,
      datasets = (\<lambda>n. if n = ''ucihar_1'' \<or> n = ''ucihar_2''
                     then Some \<lparr>info_num_classes = 2, info_class_labels = [''walk'', ''sit''],
                                info_invertible = False\<rparr>
                     else None),
      datasets_str = ''{...}'',
      datasets_names = [''ucihar_1'', ''ucihar_2''],
      tfrecord_filename = (\<lambda>n part. n @ ''_'' @ part @ ''.tfrecord''),
      path_exists = (\<lambda>p. p = ''datasets/ucihar_1_train.tfrecord''),
      map_to_source = [], map_to_target = []\<rparr>"

section \<open>models.py\<close>

subsection \<open>Gradient reversal\<close>

text \<open>
  A tensor of any rank: its shape and its values in row-major order. Numbers are real
  numbers, the idealisation of the 32-bit floats of the library; a cast between
  float types is then the identity.
\<close>

record tensor =
  shape :: "nat list"
  vals :: "real list"

definition well_shaped :: "tensor \<Rightarrow> bool" where
  "well_shaped t = (length (vals t) = prod_list (shape t))"

definition tf_cast_float32 :: "real \<Rightarrow> real" where
  "tf_cast_float32 v = v"

definition tf_negative :: "tensor \<Rightarrow> tensor" where
  "tf_negative t = \<lparr>shape = shape t, vals = map uminus (vals t)\<rparr>"

definition tf_ones_like :: "tensor \<Rightarrow> tensor" where
  "tf_ones_like t = \<lparr>shape = shape t, vals = map (\<lambda>_. 1) (vals t)\<rparr>"

definition scalar_multiply :: "tensor \<Rightarrow> real \<Rightarrow> tensor" where
  "scalar_multiply t c = \<lparr>shape = shape t, vals = map (\<lambda>v. v * c) (vals t)\<rparr>"

text \<open>
  The product of two tensors is elementwise when the shapes agree, which is the case a
  gradient function meets: automatic differentiation hands it a \<^verbatim>\<open>dy\<close> of the shape
  of the output. The library's broadcasting of two different shapes is outside this
  model and reported as \<^verbatim>\<open>None\<close>.
\<close>

definition tf_multiply :: "tensor \<Rightarrow> tensor \<Rightarrow> tensor option" where
  "tf_multiply a b =
     (if shape a = shape b
      then Some \<lparr>shape = shape a, vals = map (\<lambda>(u, v). u * v) (zip (vals a) (vals b))\<rparr>
      else None)"

text \<open>
  \<^verbatim>\<open>flip_gradient\<close> under \<^verbatim>\<open>tf.custom_gradient\<close>: the pair of the forward value and
  the function that maps the incoming gradient to the outgoing one.
\<close>

definition flip_gradient :: "tensor \<Rightarrow> real \<Rightarrow> tensor \<times> (tensor \<Rightarrow> tensor option)" where
  "flip_gradient x grl_lambda0 =
     (let grl_lambda = tf_cast_float32 grl_lambda0;
          grad = (\<lambda>dy. tf_multiply (scalar_multiply (tf_negative dy) grl_lambda) (tf_ones_like x))
      in (x, grad))"

text \<open>
  The layer keeps a reference to the step counter, a variable that the training loop
  updates, and reads its current value at each call.
\<close>

type_synonym var = nat
type_synonym variables = "var \<Rightarrow> int"

record FlipGradient_layer =
  global_step :: var
  grl_schedule :: "int \<Rightarrow> real"

definition FlipGradient_init :: "var \<Rightarrow> (int \<Rightarrow> real) \<Rightarrow> FlipGradient_layer" where
  "FlipGradient_init gs sched = \<lparr>global_step = gs, grl_schedule = sched\<rparr>"

definition FlipGradient_call ::
  "FlipGradient_layer \<Rightarrow> variables \<Rightarrow> tensor \<Rightarrow> tensor \<times> (tensor \<Rightarrow> tensor option)" where
  "FlipGradient_call self store inputs =
     (let grl_lambda = grl_schedule self (store (global_step self))
      in flip_gradient inputs grl_lambda)"

definition ConstantGrlSchedule :: "real \<Rightarrow> int \<Rightarrow> real" where
  "ConstantGrlSchedule constant = (\<lambda>step. constant)"

definition DisableGrlSchedule :: "int \<Rightarrow> real" where
  "DisableGrlSchedule = (\<lambda>step. - 1)"

definition DannGrlSchedule :: "int \<Rightarrow> int \<Rightarrow> real" where
  "DannGrlSchedule num_steps =
     (\<lambda>step. 2 / (1 + exp (- 10 * (real_of_int step / (real_of_int num_steps + 1)))) - 1)"

subsection \<open>Architectures as data\<close>

text \<open>
  A model is the stack of layers it was built from, each layer with the arguments the
  source gives it: \<^verbatim>\<open>Dense units activation use_bias\<close>,
  \<^verbatim>\<open>BatchNormalization momentum\<close> (\<^verbatim>\<open>None\<close> for the default),
  \<^verbatim>\<open>Conv2D filters kernel_size strides padding activation\<close>,
  \<^verbatim>\<open>MaxPool2D pool_size strides padding\<close>, \<^verbatim>\<open>ResNet50 include_top pooling\<close>,
  \<^verbatim>\<open>ResnetBlock blocks add\<close>.
\<close>

datatype layer =
    Dense int "string option" bool
  | BatchNormalization "real option"
  | Activation string
  | Dropout real
  | Flatten
  | Add
  | Conv2D int "int \<times> int" "int \<times> int" string "string option"
  | MaxPool2D "int \<times> int" "int \<times> int" string
  | ReLU
  | LeakyReLU real
  | GaussianNoise real
  | GlobalAvgPool2D
  | Reshape "int list"
  | ResNet50 bool string
  | Sequential "layer list"
  | ResnetBlock "layer list" layer
  | FlipGradient FlipGradient_layer

definition make_dense_bn_dropout :: "int \<Rightarrow> real \<Rightarrow> layer" where
  "make_dense_bn_dropout n_units p =
     Sequential [Dense n_units None False, BatchNormalization None, Activation ''relu'',
                 Dropout p]"

definition ResnetBlock_init :: "int \<Rightarrow> real \<Rightarrow> int \<Rightarrow> layer" where
  "ResnetBlock_init n_units p layers =
     ResnetBlock (replicate (nat layers) (make_dense_bn_dropout n_units p)) Add"

definition make_vrada_model ::
  "flags \<Rightarrow> int \<Rightarrow> var \<Rightarrow> (int \<Rightarrow> real) \<Rightarrow> layer \<times> layer \<times> layer" where
  "make_vrada_model FLAGS n_classes gs sched =
     (let fe_layers = 5; task_layers = 1; domain_layers = 2; resnet_layers = 2;
          n_units = 50; p = dropout FLAGS;
          make_classifier = (\<lambda>layers num_outputs.
             Sequential (replicate (nat (layers - 1)) (make_dense_bn_dropout n_units p)
                         @ [Dense num_outputs None True, Activation ''softmax'']));
          make_binary_classifier = (\<lambda>layers.
             Sequential (replicate (nat (layers - 1)) (make_dense_bn_dropout n_units p)
                         @ [Dense 1 None True]));
          fe = Sequential
                 ([Flatten, BatchNormalization (Some (999 / 1000))]
                  @ replicate (nat resnet_layers) (make_dense_bn_dropout n_units p)
                  @ replicate (nat (fe_layers - 1)) (ResnetBlock_init n_units p resnet_layers));
          task = Sequential [make_classifier task_layers n_classes];
          domain = Sequential [FlipGradient (FlipGradient_init gs sched),
                               make_binary_classifier domain_layers]
      in (fe, task, domain))"

definition make_dann_mnist_model ::
  "int \<Rightarrow> var \<Rightarrow> (int \<Rightarrow> real) \<Rightarrow> layer \<times> layer \<times> layer" where
  "make_dann_mnist_model n_classes gs sched =
     (Sequential
        [Conv2D 32 (5, 5) (1, 1) ''valid'' (Some ''relu''),
         MaxPool2D (2, 2) (2, 2) ''valid'',
         Conv2D 48 (5, 5) (1, 1) ''valid'' (Some ''relu''),
         MaxPool2D (2, 2) (2, 2) ''valid'',
         Flatten],
      Sequential
        [Dense 100 (Some ''relu'') True,
         Dense 100 (Some ''relu'') True,
         Dense n_classes (Some ''softmax'') True],
      Sequential
        [FlipGradient (FlipGradient_init gs sched),
         Dense 100 (Some ''relu'') True,
         Dense 1 None True])"

definition make_dann_svhn_model ::
  "flags \<Rightarrow> int \<Rightarrow> var \<Rightarrow> (int \<Rightarrow> real) \<Rightarrow> layer \<times> layer \<times> layer" where
  "make_dann_svhn_model FLAGS n_classes gs sched =
     (let p = dropout FLAGS
      in (Sequential
            [Conv2D 64 (5, 5) (1, 1) ''same'' None, BatchNormalization None, ReLU,
             MaxPool2D (3, 3) (2, 2) ''same'', Dropout p,
             Conv2D 64 (5, 5) (1, 1) ''same'' None, BatchNormalization None, ReLU,
             MaxPool2D (3, 3) (2, 2) ''same'', Dropout p,
             Conv2D 128 (5, 5) (1, 1) ''same'' None, BatchNormalization None, ReLU,
             Flatten],
          Sequential
            [Dense 3072 None True, BatchNormalization None, ReLU, Dropout p,
             Dense 2048 None True, BatchNormalization None, ReLU, Dropout p,
             Dense n_classes (Some ''softmax'') True],
          Sequential
            [FlipGradient (FlipGradient_init gs sched),
             Dense 1024 None True, BatchNormalization None, ReLU, Dropout p,
             Dense 1024 None True, BatchNormalization None, ReLU, Dropout p,
             Dense 1 None True]))"

definition make_dann_gtsrb_model ::
  "int \<Rightarrow> var \<Rightarrow> (int \<Rightarrow> real) \<Rightarrow> layer \<times> layer \<times> layer" where
  "make_dann_gtsrb_model n_classes gs sched =
     (Sequential
        [Conv2D 96 (5, 5) (1, 1) ''valid'' (Some ''relu''),
         MaxPool2D (2, 2) (2, 2) ''valid'',
         Conv2D 144 (3, 3) (1, 1) ''valid'' (Some ''relu''),
         MaxPool2D (2, 2) (2, 2) ''valid'',
         Conv2D 256 (5, 5) (1, 1) ''valid'' (Some ''relu''),
         MaxPool2D (2, 2) (2, 2) ''valid'',
         Flatten],
      Sequential
        [Dense 512 (Some ''relu'') True,
         Dense n_classes (Some ''softmax'') True],
      Sequential
        [FlipGradient (FlipGradient_init gs sched),
         Dense 1024 (Some ''relu'') True,
         Dense 1024 (Some ''relu'') True,
         Dense 1 None True])"

definition make_vada_model ::
  "int \<Rightarrow> var \<Rightarrow> (int \<Rightarrow> real) \<Rightarrow> bool \<Rightarrow> layer \<times> layer \<times> layer" where
  "make_vada_model n_classes gs sched small =
     (let leak_alpha = 1 / 10;
          conv_blocks = (\<lambda>depth.
             [Conv2D depth (3, 3) (1, 1) ''same'' None, BatchNormalization None,
              LeakyReLU leak_alpha,
              Conv2D depth (3, 3) (1, 1) ''same'' None, BatchNormalization None,
              LeakyReLU leak_alpha,
              Conv2D depth (3, 3) (1, 1) ''same'' None, BatchNormalization None,
              LeakyReLU leak_alpha]);
          pool_blocks = [MaxPool2D (2, 2) (2, 2) ''same'', Dropout (1 / 2), GaussianNoise 1]
      in (Sequential
            (conv_blocks (if small then 64 else 96) @ pool_blocks
             @ conv_blocks (if small then 64 else 192) @ pool_blocks),
          Sequential
            (conv_blocks (if small then 64 else 192)
             @ [GlobalAvgPool2D, Flatten, Dense n_classes (Some ''softmax'') True]),
          Sequential
            [FlipGradient (FlipGradient_init gs sched),
             Flatten,
             Dense 100 None True, BatchNormalization None, ReLU,
             Dense 1 None True]))"

definition make_resnet50_model ::
  "int \<Rightarrow> var \<Rightarrow> (int \<Rightarrow> real) \<Rightarrow> layer \<times> layer \<times> layer" where
  "make_resnet50_model n_classes gs sched =
     (ResNet50 False ''avg'',
      Sequential [Flatten, Dense n_classes (Some ''softmax'') True],
      Sequential [FlipGradient (FlipGradient_init gs sched), Flatten, Dense 1 None True])"

subsection \<open>The domain adaptation model\<close>

text \<open>
  The four parts of the model. The type of a part is a parameter: the constructor
  builds architectures, and the forward pass and the variables of a part belong to the
  framework, which the wrapper only calls.
\<close>

record 'm DomainAdaptationModel =
  feature_extractor :: 'm
  task_classifier :: 'm
  domain_classifier :: 'm
  target_classifier :: 'm

text \<open>
  \<^verbatim>\<open>tf.keras.models.clone_model\<close> builds a new model of the same architecture with
  weights of its own; the architecture is what this model of it keeps.
\<close>

definition clone_model :: "layer \<Rightarrow> layer" where
  "clone_model m = m"

definition DomainAdaptationModel_init ::
  "flags \<Rightarrow> int \<Rightarrow> string \<Rightarrow> var \<Rightarrow> int \<Rightarrow> bool \<Rightarrow> error + layer DomainAdaptationModel" where
  "DomainAdaptationModel_init FLAGS n_classes model_name gs num_steps use_grl =
     (let sched = (if use_grl then DannGrlSchedule num_steps else DisableGrlSchedule)
      in case (if model_name = ''flat'' then Inr (make_vrada_model FLAGS n_classes gs sched)
               else if model_name = ''dann_mnist'' then Inr (make_dann_mnist_model n_classes gs sched)
               else if model_name = ''dann_svhn'' then
                 Inr (make_dann_svhn_model FLAGS n_classes gs sched)
               else if model_name = ''dann_gtsrb'' then Inr (make_dann_gtsrb_model n_classes gs sched)
               else if model_name = ''vada_small'' then Inr (make_vada_model n_classes gs sched True)
               else if model_name = ''vada_large'' then Inr (make_vada_model n_classes gs sched False)
               else if model_name = ''resnet50'' then Inr (make_resnet50_model n_classes gs sched)
               else Inl (NotImplementedError (''Model name: '' @ model_name))) of
           Inl err \<Rightarrow> Inl err
         | Inr (fe, task, domain) \<Rightarrow>
             Inr \<lparr>feature_extractor = fe, task_classifier = task, domain_classifier = domain,
                  target_classifier = clone_model task\<rparr>)"

definition models :: "string list" where
  "models = [''flat'', ''dann_mnist'', ''dann_svhn'', ''dann_gtsrb'', ''vada_small'',
             ''vada_large'', ''resnet50'']"

definition names :: "string list" where
  "names = models"

subsection \<open>Calling the parts of a model\<close>

text \<open>
  The state of the framework: the global learning phase, and whatever the layers keep
  between calls (moving averages, random numbers). A part is called with its
  \<^verbatim>\<open>training\<close> argument (\<^verbatim>\<open>None\<close> when it is not passed), the keyword arguments
  passed on to it, and its input; the call returns the output and the new state.
\<close>

record 's backend =
  learning_phase :: int
  layers_state :: 's

type_synonym ('m, 'k, 't, 's) forward =
  "'m \<Rightarrow> bool option \<Rightarrow> 'k list \<Rightarrow> 't \<Rightarrow> 's backend \<Rightarrow> 't \<times> 's backend"

definition set_learning_phase :: "bool option \<Rightarrow> 's backend \<Rightarrow> 's backend" where
  "set_learning_phase training st =
     (if training = Some True then st\<lparr>learning_phase := 1\<rparr>
      else if training = Some False then st\<lparr>learning_phase := 0\<rparr>
      else st)"

definition DomainAdaptationModel_call ::
  "('m, 'k, 't, 's) forward \<Rightarrow> 'm DomainAdaptationModel \<Rightarrow> 't \<Rightarrow> bool \<Rightarrow> bool option \<Rightarrow>
   'k list \<Rightarrow> 's backend \<Rightarrow> ('t \<times> 't) \<times> 's backend" where
  "DomainAdaptationModel_call fwd self inputs target training kwargs st =
     (let st0 = set_learning_phase training st;
          (fe, st1) = fwd (feature_extractor self) None kwargs inputs st0;
          (domain, st2) = fwd (domain_classifier self) None kwargs fe st1;
          (task, st3) = (if target then fwd (target_classifier self) None kwargs fe st2
                         else fwd (task_classifier self) None kwargs fe st2)
      in ((task, domain), st3))"

definition trainable_variables_task :: "('m \<Rightarrow> 'v list) \<Rightarrow> 'm DomainAdaptationModel \<Rightarrow> 'v list" where
  "trainable_variables_task trainable_variables self =
     trainable_variables (feature_extractor self) @ trainable_variables (task_classifier self)"

definition trainable_variables_task_domain ::
  "('m \<Rightarrow> 'v list) \<Rightarrow> 'm DomainAdaptationModel \<Rightarrow> 'v list" where
  "trainable_variables_task_domain trainable_variables self =
     trainable_variables (feature_extractor self) @ trainable_variables (task_classifier self)
     @ trainable_variables (domain_classifier self)"

definition trainable_variables_target ::
  "('m \<Rightarrow> 'v list) \<Rightarrow> 'm DomainAdaptationModel \<Rightarrow> 'v list" where
  "trainable_variables_target trainable_variables self =
     trainable_variables (feature_extractor self) @ trainable_variables (target_classifier self)"

text \<open>
  A framework whose layers are pure functions and whose state is the record of the
  calls made: which part, with which \<^verbatim>\<open>training\<close> argument, on which input.
\<close>

definition traced ::
  "('m \<Rightarrow> bool option \<Rightarrow> 'k list \<Rightarrow> 't \<Rightarrow> 't) \<Rightarrow>
   ('m, 'k, 't, ('m \<times> bool option \<times> 't) list) forward" where
  "traced f m training kwargs x st =
     (f m training kwargs x, st\<lparr>layers_state := layers_state st @ [(m, training, x)]\<rparr>)"

subsection \<open>The mapping model\<close>

record 'm CycleGAN =
  units :: int
  self_dropout :: real
  source_to_target :: 'm
  target_to_source :: 'm
  source_discriminator :: 'm
  target_discriminator :: 'm
  source_pre :: 'm
  target_pre :: 'm

definition make_generator :: "int \<Rightarrow> real \<Rightarrow> int list \<Rightarrow> int \<Rightarrow> int \<Rightarrow> layer" where
  "make_generator n_units p output_dims layers resnet_layers =
     Sequential
       ([Flatten]
        @ replicate (nat resnet_layers) (make_dense_bn_dropout n_units p)
        @ replicate (nat (layers - 1)) (ResnetBlock_init n_units p resnet_layers)
        @ [Dense (prod_list output_dims) None True, Reshape output_dims])"

definition make_discriminator :: "int \<Rightarrow> real \<Rightarrow> int \<Rightarrow> int \<Rightarrow> layer" where
  "make_discriminator n_units p layers resnet_layers =
     Sequential
       ([Flatten]
        @ replicate (nat resnet_layers) (make_dense_bn_dropout n_units p)
        @ replicate (nat (layers - 1)) (ResnetBlock_init n_units p resnet_layers)
        @ [Dense 1 None True])"

definition CycleGAN_init :: "flags \<Rightarrow> int list \<Rightarrow> int list \<Rightarrow> error + layer CycleGAN" where
  "CycleGAN_init FLAGS source_x_shape target_x_shape =
     (let n_units = 50; p = dropout FLAGS
      in if target_x_shape \<noteq> source_x_shape then
           Inl (AssertionError ''Right now only support homogenous adaptation'')
         else
           Inr \<lparr>units = n_units, self_dropout = p,
                source_to_target = make_generator n_units p target_x_shape 4 2,
                target_to_source = make_generator n_units p source_x_shape 4 2,
                source_discriminator = make_discriminator n_units p 4 2,
                target_discriminator = make_discriminator n_units p 4 2,
                source_pre = Sequential [BatchNormalization None],
                target_pre = Sequential [BatchNormalization None]\<rparr>)"

definition CycleGAN_call ::
  "('m, 'k, 't, 's) forward \<Rightarrow> 'm CycleGAN \<Rightarrow> 't \<Rightarrow> string \<Rightarrow> bool option \<Rightarrow> 'k list \<Rightarrow>
   's backend \<Rightarrow> (error + ('t \<times> 't \<times> 't \<times> 't)) \<times> 's backend" where
  "CycleGAN_call fwd self inputs dest training kwargs st =
     (let st0 = set_learning_phase training st
      in if dest = ''target'' then
           (let x_a = inputs;
                (x_a_norm, st1) = fwd (source_pre self) training [] x_a st0;
                (gen_AtoB, st2) = fwd (source_to_target self) training kwargs x_a_norm st1;
                (x_b_fake_norm, st3) = fwd (target_pre self) (Some False) [] gen_AtoB st2;
                (gen_AtoBtoA, st4) = fwd (target_to_source self) training kwargs x_b_fake_norm st3;
                (disc_Areal, st5) = fwd (source_discriminator self) training kwargs x_a_norm st4;
                (disc_Bfake, st6) =
                   fwd (target_discriminator self) training kwargs x_b_fake_norm st5
            in (Inr (gen_AtoB, gen_AtoBtoA, disc_Areal, disc_Bfake), st6))
         else if dest = ''source'' then
           (let x_b = inputs;
                (x_b_norm, st1) = fwd (target_pre self) training [] x_b st0;
                (gen_BtoA, st2) = fwd (target_to_source self) training kwargs x_b_norm st1;
                (x_a_fake_norm, st3) = fwd (source_pre self) (Some False) [] gen_BtoA st2;
                (gen_BtoAtoB, st4) = fwd (source_to_target self) training kwargs x_a_fake_norm st3;
                (disc_Breal, st5) = fwd (target_discriminator self) training kwargs x_b_norm st4;
                (disc_Afake, st6) =
                   fwd (source_discriminator self) training kwargs x_a_fake_norm st5
            in (Inr (gen_BtoA, gen_BtoAtoB, disc_Breal, disc_Afake), st6))
         else (Inl (NotImplementedError ''dest can only be either source or target''), st0))"

subsection \<open>Loss factories\<close>

text \<open>
  The loss objects of the framework are arguments of the factories:
  \<^verbatim>\<open>CategoricalCrossentropy()\<close> applied to \<^verbatim>\<open>(y_true, y_pred, sample_weight)\<close>, and
  \<^verbatim>\<open>BinaryCrossentropy(from_logits)\<close> applied to \<^verbatim>\<open>(y_true, y_pred)\<close>. A factory
  returns the closure the source returns.
\<close>

definition make_task_loss ::
  "('a tensor2 \<Rightarrow> 'a tensor2 \<Rightarrow> 'w option \<Rightarrow> 'l) \<Rightarrow> bool \<Rightarrow>
   ('a tensor2 \<Rightarrow> 'a tensor2 \<Rightarrow> bool option \<Rightarrow> 's backend \<Rightarrow> error + 'l)" where
  "make_task_loss cce adapt =
     (\<lambda>y_true y_pred training0 st.
        let training = (case training0 of None \<Rightarrow> learning_phase st \<noteq> 0 | Some b \<Rightarrow> b)
        in if adapt \<and> training then
             (let batch_size = int (dim0 y_pred)
              in case tf_slice y_pred (0, 0) (batch_size div 2, - 1) of
                   Inl err \<Rightarrow> Inl err
                 | Inr y_pred' \<Rightarrow>
                     (case tf_slice y_true (0, 0) (batch_size div 2, - 1) of
                        Inl err \<Rightarrow> Inl err
                      | Inr y_true' \<Rightarrow> Inr (cce y_true' y_pred' None)))
           else Inr (cce y_true y_pred None))"

definition make_weighted_loss ::
  "('a tensor2 \<Rightarrow> 'a tensor2 \<Rightarrow> 'w option \<Rightarrow> 'l) \<Rightarrow>
   ('a tensor2 \<Rightarrow> 'a tensor2 \<Rightarrow> 'w \<Rightarrow> bool option \<Rightarrow> 'l)" where
  "make_weighted_loss cce = (\<lambda>y_true y_pred weights training. cce y_true y_pred (Some weights))"

definition make_domain_loss ::
  "(bool \<Rightarrow> 'a tensor2 \<Rightarrow> 'a tensor2 \<Rightarrow> real) \<Rightarrow> bool \<Rightarrow> ('a tensor2 \<Rightarrow> 'a tensor2 \<Rightarrow> real)" where
  "make_domain_loss bce use_domain_loss =
     (if use_domain_loss then (\<lambda>y_true y_pred. bce True y_true y_pred)
      else (\<lambda>y_true y_pred. 0))"

definition make_mapping_loss ::
  "(bool \<Rightarrow> 'a tensor2 \<Rightarrow> 'a tensor2 \<Rightarrow> real) \<Rightarrow> ('a tensor2 \<Rightarrow> 'a tensor2 \<Rightarrow> real)" where
  "make_mapping_loss bce = (\<lambda>y_true y_pred. bce True y_true y_pred)"

text \<open>
  The loss object \<^verbatim>\<open>BinaryCrossentropy(from_logits=True)\<close> of the framework, as its
  documentation gives it: for a logit \<^verbatim>\<open>x\<close> and a label \<^verbatim>\<open>z\<close> the loss
  \<^verbatim>\<open>max(x, 0) - x * z + log(1 + exp(-|x|))\<close>, averaged over the last axis and then
  over the batch. It serves to run the factories on numbers; the source never builds
  the loss on probabilities.
\<close>

definition mean :: "real list \<Rightarrow> real" where
  "mean xs = sum_list xs / real (length xs)"

definition BinaryCrossentropy_from_logits :: "real tensor2 \<Rightarrow> real tensor2 \<Rightarrow> real" where
  "BinaryCrossentropy_from_logits y_true y_pred =
     mean (map (\<lambda>(zs, xs). mean (map (\<lambda>(z, x). max x 0 - x * z + ln (1 + exp (- \<bar>x\<bar>)))
                                     (zip zs xs)))
             (zip (elems y_true) (elems y_pred)))"

subsection \<open>Values to run the models on\<close>

text \<open>
  A mapping model whose parts are their names, layers that print the call they are
  given, and a loss that returns the rows it is called on.
\<close>

definition example_gan :: "string CycleGAN" where
  "example_gan =
     \<lparr>units = 50, self_dropout = 5 / 100, source_to_target = ''G_ab'', target_to_source = ''G_ba'',
      source_discriminator = ''D_a'', target_discriminator = ''D_b'', source_pre = ''pre_a'',
      target_pre = ''pre_b''\<rparr>"

definition example_layers :: "string \<Rightarrow> bool option \<Rightarrow> unit list \<Rightarrow> string \<Rightarrow> string" where
  "example_layers m training kwargs x = m @ ''('' @ x @ '')''"

definition example_loss ::
  "int tensor2 \<Rightarrow> int tensor2 \<Rightarrow> unit option \<Rightarrow> int list list \<times> int list list" where
  "example_loss y_true y_pred sample_weight = (elems y_true, elems y_pred)"

section \<open>Properties of the loader\<close>

lemma list_index_Some:
  "v \<in> set xs \<Longrightarrow> \<exists>i. list_index xs v = Some i \<and> i < length xs \<and> xs ! i = v"
  by (induction xs) auto

lemma list_index_nth:
  "distinct xs \<Longrightarrow> i < length xs \<Longrightarrow> list_index xs (xs ! i) = Some i"
proof (induction xs arbitrary: i)
  case Nil
  then show ?case by simp
next
  case (Cons x xs)
  show ?case
  proof (cases i)
    case 0
    then show ?thesis by simp
  next
    case (Suc k)
    with Cons.prems have "k < length xs" and "xs ! k \<noteq> x"
      by auto
    with Cons.IH Cons.prems Suc show ?thesis
      by auto
  qed
qed

lemma Dataset_init_labels:
  assumes "Dataset_init FLAGS ms mt n labels nd trf tef iv kw = Inr d"
  shows "class_labels d = labels \<and> num_classes d = n \<and> n = int (length labels)"
  using assms by (auto simp: Dataset_init_def Let_def split: if_splits)

text \<open>
  C10. For a dataset the constructor returned, a label that occurs in
  \<^verbatim>\<open>class_labels\<close> is mapped to an index that \<^verbatim>\<open>int_to_label\<close> maps back to it; and
  when the labels are pairwise distinct, every index \<^verbatim>\<open>0 <= i < num_classes\<close> is
  mapped to a label that \<^verbatim>\<open>label_to_int\<close> maps back to \<^verbatim>\<open>i\<close>.
\<close>

theorem label_round_trip:
  assumes init: "Dataset_init FLAGS ms mt n labels nd trf tef iv kw = Inr d"
  shows "(label_name \<in> set (class_labels d) \<longrightarrow>
            (\<exists>i. label_to_int d label_name = Inr i \<and> int_to_label d i = Inr label_name))
         \<and> (distinct (class_labels d) \<and> 0 \<le> i \<and> i < num_classes d \<longrightarrow>
            (\<exists>l. int_to_label d i = Inr l \<and> label_to_int d l = Inr i))"
proof (intro conjI impI)
  assume "label_name \<in> set (class_labels d)"
  then obtain k where k: "list_index (class_labels d) label_name = Some k"
      "k < length (class_labels d)" "class_labels d ! k = label_name"
    using list_index_Some by fastforce
  then show "\<exists>i. label_to_int d label_name = Inr i \<and> int_to_label d i = Inr label_name"
    by (simp add: label_to_int_def int_to_label_def list_getitem_def)
next
  assume a: "distinct (class_labels d) \<and> 0 \<le> i \<and> i < num_classes d"
  from Dataset_init_labels [OF init] have len: "num_classes d = int (length (class_labels d))"
    by simp
  with a have lt: "nat i < length (class_labels d)"
    by linarith
  with a have "list_index (class_labels d) (class_labels d ! nat i) = Some (nat i)"
    by (simp add: list_index_nth)
  with a len show "\<exists>l. int_to_label d i = Inr l \<and> label_to_int d l = Inr i"
    by (simp add: label_to_int_def int_to_label_def list_getitem_def)
qed

theorem label_round_trip_witness:
  "\<exists>d. Dataset_init default_flags [] [] 2 [''walk'', ''sit''] 2 [] [] None no_kwargs = Inr d
       \<and> ''sit'' \<in> set (class_labels d)
       \<and> (\<exists>i. label_to_int d ''sit'' = Inr i \<and> int_to_label d i = Inr ''sit'')
       \<and> distinct (class_labels d) \<and> (0::int) \<le> 1 \<and> 1 < num_classes d
       \<and> (\<exists>l. int_to_label d 1 = Inr l \<and> label_to_int d l = Inr 1)"
proof -
  obtain d where d: "Dataset_init default_flags [] [] 2 [''walk'', ''sit''] 2 [] [] None no_kwargs = Inr d"
    by (simp add: Dataset_init_def Let_def)
  from Dataset_init_labels [OF d] have cl: "class_labels d = [''walk'', ''sit'']" "num_classes d = 2"
    by simp_all
  from label_round_trip [OF d, of "''sit''" 1] cl d show ?thesis
    by auto
qed

subsection \<open>Empty lists of files\<close>

lemma load_tfrecords_empty: "load_tfrecords em sb es pb tn [] b c ev = None"
  by (simp add: load_tfrecords_def)

lemma load_tfrecords_None_iff: "load_tfrecords em sb es pb tn fs b c ev = None \<longleftrightarrow> fs = []"
  by (simp add: load_tfrecords_def)

lemma Dataset_init_pipelines:
  assumes "Dataset_init FLAGS ms mt n labels nd trf tef iv kw = Inr d"
  shows "(train d = None \<longleftrightarrow> trf = []) \<and> (train_evaluation d = None \<longleftrightarrow> trf = [])
         \<and> (test_evaluation d = None \<longleftrightarrow> tef = [])"
  using assms
  by (auto simp: Dataset_init_def Let_def load_tfrecords_None_iff split: if_splits)

lemma path_list_empty: "path_list e f = [] \<longleftrightarrow> \<not> path_exists e (os_path_join ''datasets'' f)"
  by (simp add: path_list_def Let_def)

lemma load_pipelines:
  assumes "load e name nd test kw = Inr d"
  shows "(train d = None \<longleftrightarrow>
            (if test then path_list e (tfrecord_filename e name ''train'')
                          @ path_list e (tfrecord_filename e name ''valid'')
             else path_list e (tfrecord_filename e name ''train'')) = [])
         \<and> (train_evaluation d = None \<longleftrightarrow> train d = None)
         \<and> (test_evaluation d = None \<longleftrightarrow>
              path_list e (tfrecord_filename e name (if test then ''test'' else ''valid'')) = [])"
proof (cases "datasets e name")
  case None
  with assms show ?thesis
    by (simp add: load_def)
next
  case (Some info)
  show ?thesis
  proof (cases test)
    case True
    with Some assms Dataset_init_pipelines show ?thesis
      unfolding load_def Let_def by fastforce
  next
    case False
    with Some assms Dataset_init_pipelines show ?thesis
      unfolding load_def Let_def by fastforce
  qed
qed

text \<open>
  C9. \<^verbatim>\<open>load_tfrecords\<close> returns \<^verbatim>\<open>None\<close> for an empty list of files, whatever its
  other arguments. Hence, for a dataset that \<^verbatim>\<open>load\<close> returned: \<^verbatim>\<open>train\<close> and
  \<^verbatim>\<open>train_evaluation\<close> are \<^verbatim>\<open>None\<close> when none of the files they are read from is on
  disk (the training file, and with \<^verbatim>\<open>test=True\<close> the validation file as well), and
  \<^verbatim>\<open>test_evaluation\<close> is \<^verbatim>\<open>None\<close> when its file is not on disk (the validation file,
  or the test file with \<^verbatim>\<open>test=True\<close>).
\<close>

theorem missing_files_give_None:
  "load_tfrecords em sb es pb tn [] batch_size count evaluation = None
   \<and> (load e name nd test kw = Inr d \<longrightarrow>
        ((if test
          then \<not> path_exists e (os_path_join ''datasets'' (tfrecord_filename e name ''train''))
               \<and> \<not> path_exists e (os_path_join ''datasets'' (tfrecord_filename e name ''valid''))
          else \<not> path_exists e (os_path_join ''datasets'' (tfrecord_filename e name ''train'')))
         \<longrightarrow> train d = None \<and> train_evaluation d = None)
        \<and> (\<not> path_exists e (os_path_join ''datasets''
                  (tfrecord_filename e name (if test then ''test'' else ''valid'')))
         \<longrightarrow> test_evaluation d = None))"
proof -
  have a: "load_tfrecords em sb es pb tn [] batch_size count evaluation = None"
    by (rule load_tfrecords_empty)
  have b: "train d = None \<and> train_evaluation d = None"
    if "load e name nd test kw = Inr d"
      and "if test
          then \<not> path_exists e (os_path_join ''datasets'' (tfrecord_filename e name ''train''))
               \<and> \<not> path_exists e (os_path_join ''datasets'' (tfrecord_filename e name ''valid''))
          else \<not> path_exists e (os_path_join ''datasets'' (tfrecord_filename e name ''train''))"
    using load_pipelines [OF that(1)] that(2)
    by (simp add: path_list_empty split: if_splits)
  have c: "test_evaluation d = None"
    if "load e name nd test kw = Inr d"
      and "\<not> path_exists e (os_path_join ''datasets''
                  (tfrecord_filename e name (if test then ''test'' else ''valid'')))"
    using load_pipelines [OF that(1)] that(2)
    by (simp add: path_list_empty)
  from a b c show ?thesis
    by blast
qed

theorem missing_files_give_None_witness:
  "\<exists>d. load example_env ''ucihar_2'' 2 False no_kwargs = Inr d
       \<and> \<not> path_exists example_env
             (os_path_join ''datasets'' (tfrecord_filename example_env ''ucihar_2'' ''train''))
       \<and> \<not> path_exists example_env
             (os_path_join ''datasets'' (tfrecord_filename example_env ''ucihar_2'' ''valid''))
       \<and> train d = None \<and> train_evaluation d = None \<and> test_evaluation d = None"
proof -
  obtain d where d: "load example_env ''ucihar_2'' 2 False no_kwargs = Inr d"
    by (simp add: load_def example_env_def Dataset_init_def Let_def)
  have t: "\<not> path_exists example_env
             (os_path_join ''datasets'' (tfrecord_filename example_env ''ucihar_2'' ''train''))"
    and v: "\<not> path_exists example_env
             (os_path_join ''datasets'' (tfrecord_filename example_env ''ucihar_2'' ''valid''))"
    by (simp_all add: example_env_def os_path_join_def)
  from missing_files_give_None [of _ _ _ _ _ _ _ _ example_env "''ucihar_2''" 2 False no_kwargs d]
    d t v show ?thesis
    by auto
qed

subsection \<open>load_da without a target\<close>

lemma check_sources_shape:
  "check_sources v ss = Some err \<Longrightarrow> \<exists>s. err = AssertionError (''unknown source domain: '' @ s)"
  by (induction ss) (auto split: if_splits)

text \<open>
  C8. Called with \<^verbatim>\<open>target=None\<close>, \<^verbatim>\<open>load_da\<close> raises before \<^verbatim>\<open>load\<close> is called once:
  either a source name fails its assertion, or the check \<^verbatim>\<open>target in valid_names\<close>
  fails for \<^verbatim>\<open>None\<close> (and building its message from \<^verbatim>\<open>None\<close> raises
  \<^verbatim>\<open>TypeError\<close>). So no call of \<^verbatim>\<open>load_da\<close>, with any target, returns a pair
  whose second component is \<^verbatim>\<open>None\<close>.
\<close>

theorem load_da_without_target:
  "(load_da e dataset sources None test kw = (Inl TypeError, [])
    \<or> (\<exists>s. load_da e dataset sources None test kw
            = (Inl (AssertionError (''unknown source domain: '' @ s)), [])))
   \<and> fst (load_da e dataset sources target test kw) \<noteq> Inr (ds, None)"
proof
  show "load_da e dataset sources None test kw = (Inl TypeError, [])
    \<or> (\<exists>s. load_da e dataset sources None test kw
            = (Inl (AssertionError (''unknown source domain: '' @ s)), []))"
    by (auto simp: load_da_def Let_def split: option.splits dest: check_sources_shape)
  show "fst (load_da e dataset sources target test kw) \<noteq> Inr (ds, None)"
    by (auto simp: load_da_def Let_def split: option.splits sum.splits prod.splits)
qed

subsection \<open>Trimming a parsed example\<close>

lemma map_take_rows: "list_all (\<lambda>r. length r = n) rows \<Longrightarrow> map (take n) rows = rows"
  by (induction rows) auto









section \<open>Properties of the models\<close>

subsection \<open>Gradient reversal\<close>

lemma zip_ones:
  "length xs = length ys \<Longrightarrow>
   map (\<lambda>(u, v). u * v) (zip (map f xs) (map (\<lambda>_. 1::real) ys)) = map f xs"
  by (induction xs ys rule: list_induct2) auto

text \<open>
  C1. The forward value of \<^verbatim>\<open>flip_gradient(x, lambda)\<close> is \<^verbatim>\<open>x\<close>. Its gradient function
  maps an incoming gradient \<^verbatim>\<open>dy\<close> of the shape of \<^verbatim>\<open>x\<close> to the tensor of that shape
  whose elements are \<^verbatim>\<open>-dy * lambda\<close>. The layer calls \<^verbatim>\<open>flip_gradient\<close> with the value
  of its schedule at the current value of the step counter.
\<close>

theorem flip_gradient_reverses:
  "fst (flip_gradient x l) = x
   \<and> (well_shaped x \<and> well_shaped dy \<and> shape dy = shape x \<longrightarrow>
       snd (flip_gradient x l) dy
         = Some \<lparr>shape = shape dy, vals = map (\<lambda>d. - d * l) (vals dy)\<rparr>)
   \<and> FlipGradient_call self store x
       = flip_gradient x (grl_schedule self (store (global_step self)))"
  by (simp add: flip_gradient_def Let_def tf_multiply_def scalar_multiply_def tf_negative_def
      tf_ones_like_def tf_cast_float32_def FlipGradient_call_def zip_ones well_shaped_def)

theorem flip_gradient_reverses_witness:
  "well_shaped \<lparr>shape = [2], vals = [1, 2]\<rparr> \<and> well_shaped \<lparr>shape = [2], vals = [3, - 4]\<rparr>
   \<and> snd (flip_gradient \<lparr>shape = [2], vals = [1, 2]\<rparr> (1 / 2)) \<lparr>shape = [2], vals = [3, - 4]\<rparr>
       = Some \<lparr>shape = [2], vals = [- 3 / 2, 2]\<rparr>"
proof -
  have w: "well_shaped \<lparr>shape = [2], vals = [1, 2]\<rparr>" "well_shaped \<lparr>shape = [2], vals = [3, - 4]\<rparr>"
    by (simp_all add: well_shaped_def)
  with flip_gradient_reverses [of "\<lparr>shape = [2], vals = [1, 2]\<rparr>" "1 / 2"
      "\<lparr>shape = [2], vals = [3, - 4]\<rparr>"]
  show ?thesis
    by simp
qed

subsection \<open>The catalog of models\<close>

text \<open>
  C4. \<^verbatim>\<open>names()\<close> is the list of the seven model names. For a name of the list the
  constructor returns a model, and the three parts stored on it are the ones the
  factory of that name builds; for any other name it raises
  \<^verbatim>\<open>NotImplementedError\<close>.
\<close>

theorem model_catalog:
  "names = [''flat'', ''dann_mnist'', ''dann_svhn'', ''dann_gtsrb'', ''vada_small'',
             ''vada_large'', ''resnet50'']
   \<and> (model_name \<in> set names \<longrightarrow>
        (\<exists>m. DomainAdaptationModel_init FLAGS n model_name gs num_steps use_grl = Inr m))
   \<and> (model_name \<notin> set names \<longrightarrow>
        DomainAdaptationModel_init FLAGS n model_name gs num_steps use_grl
          = Inl (NotImplementedError (''Model name: '' @ model_name)))
   \<and> (let sched = (if use_grl then DannGrlSchedule num_steps else DisableGrlSchedule);
           parts = (\<lambda>name. map_sum id
                      (\<lambda>m. (feature_extractor m, task_classifier m, domain_classifier m))
                      (DomainAdaptationModel_init FLAGS n name gs num_steps use_grl))
       in parts ''flat'' = Inr (make_vrada_model FLAGS n gs sched)
          \<and> parts ''dann_mnist'' = Inr (make_dann_mnist_model n gs sched)
          \<and> parts ''dann_svhn'' = Inr (make_dann_svhn_model FLAGS n gs sched)
          \<and> parts ''dann_gtsrb'' = Inr (make_dann_gtsrb_model n gs sched)
          \<and> parts ''vada_small'' = Inr (make_vada_model n gs sched True)
          \<and> parts ''vada_large'' = Inr (make_vada_model n gs sched False)
          \<and> parts ''resnet50'' = Inr (make_resnet50_model n gs sched))"
proof -
  have a: "names = [''flat'', ''dann_mnist'', ''dann_svhn'', ''dann_gtsrb'', ''vada_small'',
             ''vada_large'', ''resnet50'']"
    by (simp add: names_def models_def)
  have b: "\<exists>m. DomainAdaptationModel_init FLAGS n model_name gs num_steps use_grl = Inr m"
    if "model_name \<in> set names"
    using that
    by (auto simp: names_def models_def DomainAdaptationModel_init_def Let_def split: prod.splits)
  have c: "DomainAdaptationModel_init FLAGS n model_name gs num_steps use_grl
          = Inl (NotImplementedError (''Model name: '' @ model_name))"
    if "model_name \<notin> set names"
    using that
    by (simp add: names_def models_def DomainAdaptationModel_init_def Let_def)
  have e: "(let sched = (if use_grl then DannGrlSchedule num_steps else DisableGrlSchedule);
           parts = (\<lambda>name. map_sum id
                      (\<lambda>m. (feature_extractor m, task_classifier m, domain_classifier m))
                      (DomainAdaptationModel_init FLAGS n name gs num_steps use_grl))
       in parts ''flat'' = Inr (make_vrada_model FLAGS n gs sched)
          \<and> parts ''dann_mnist'' = Inr (make_dann_mnist_model n gs sched)
          \<and> parts ''dann_svhn'' = Inr (make_dann_svhn_model FLAGS n gs sched)
          \<and> parts ''dann_gtsrb'' = Inr (make_dann_gtsrb_model n gs sched)
          \<and> parts ''vada_small'' = Inr (make_vada_model n gs sched True)
          \<and> parts ''vada_large'' = Inr (make_vada_model n gs sched False)
          \<and> parts ''resnet50'' = Inr (make_resnet50_model n gs sched))"
    unfolding DomainAdaptationModel_init_def Let_def
    by (simp split: prod.splits)
  from a b c e show ?thesis
    by blast
qed

theorem model_catalog_witness:
  "''flat'' \<in> set names
   \<and> (\<exists>m. DomainAdaptationModel_init default_flags 6 ''flat'' 0 1000 False = Inr m)
   \<and> ''lenet'' \<notin> set names
   \<and> DomainAdaptationModel_init default_flags 6 ''lenet'' 0 1000 False
        = Inl (NotImplementedError ''Model name: lenet'')"
proof -
  have i: "''flat'' \<in> set names" and o: "''lenet'' \<notin> set names"
    by (simp_all add: names_def models_def)
  from i model_catalog [of "''flat''" default_flags 6 0 1000 False]
  have "\<exists>m. DomainAdaptationModel_init default_flags 6 ''flat'' 0 1000 False = Inr m"
    by blast
  moreover from o model_catalog [of "''lenet''" default_flags 6 0 1000 False]
  have "DomainAdaptationModel_init default_flags 6 ''lenet'' 0 1000 False
        = Inl (NotImplementedError (''Model name: '' @ ''lenet''))"
    by blast
  ultimately show ?thesis
    using i o by simp
qed

subsection \<open>The forward pass of the domain adaptation model\<close>

text \<open>
  C5. Whatever the framework, the outputs of a call are those of the feature extractor
  on the input, then of the domain classifier on these features, then of the target
  classifier (when \<^verbatim>\<open>target\<close> is true) or the task classifier (when it is false) on the
  same features, returned as (task, domain). On a framework that records its calls the
  record is extended by exactly these three, so the features are computed once. The
  three properties of grouped variables are the concatenations of the variables of the
  feature extractor with those of the task classifier, of the task and the domain
  classifier, and of the target classifier.
\<close>

theorem model_call:
  "fst (DomainAdaptationModel_call fwd self x target training kwargs st) =
     (let r_fe = fwd (feature_extractor self) None kwargs x (set_learning_phase training st);
          r_domain = fwd (domain_classifier self) None kwargs (fst r_fe) (snd r_fe);
          r_task = fwd (if target then target_classifier self else task_classifier self)
                     None kwargs (fst r_fe) (snd r_domain)
      in (fst r_task, fst r_domain))
   \<and> DomainAdaptationModel_call (traced f) self x target training kwargs st =
     (let feats = f (feature_extractor self) None kwargs x;
          classifier = (if target then target_classifier self else task_classifier self)
      in ((f classifier None kwargs feats, f (domain_classifier self) None kwargs feats),
          (set_learning_phase training st)
            \<lparr>layers_state := layers_state st
               @ [(feature_extractor self, None, x), (domain_classifier self, None, feats),
                  (classifier, None, feats)]\<rparr>))
   \<and> trainable_variables_task tv self
       = tv (feature_extractor self) @ tv (task_classifier self)
   \<and> trainable_variables_task_domain tv self
       = tv (feature_extractor self) @ (tv (task_classifier self) @ tv (domain_classifier self))
   \<and> trainable_variables_target tv self
       = tv (feature_extractor self) @ tv (target_classifier self)"
  by (simp add: DomainAdaptationModel_call_def traced_def set_learning_phase_def Let_def
      trainable_variables_task_def trainable_variables_task_domain_def
      trainable_variables_target_def split: prod.splits)

subsection \<open>The passes of the mapping model\<close>

text \<open>
  C6. With \<^verbatim>\<open>dest = "target"\<close> the calls are, in this order: \<^verbatim>\<open>source_pre\<close> on the
  input, \<^verbatim>\<open>source_to_target\<close> on the normalized input, \<^verbatim>\<open>target_pre\<close> on the generated
  output with \<^verbatim>\<open>training=False\<close>, \<^verbatim>\<open>target_to_source\<close> on the normalized fake, then
  \<^verbatim>\<open>source_discriminator\<close> on the normalized input and \<^verbatim>\<open>target_discriminator\<close> on the
  normalized fake; the result is (forward translation, back translation, the two
  discriminator outputs). With \<^verbatim>\<open>dest = "source"\<close> the pass is the symmetric one. Any
  other \<^verbatim>\<open>dest\<close> raises \<^verbatim>\<open>NotImplementedError\<close>, after the learning phase is set.
\<close>

theorem cyclegan_call:
  "CycleGAN_call (traced f) self x ''target'' training kwargs st =
     (let x_norm = f (source_pre self) training [] x;
          fake = f (source_to_target self) training kwargs x_norm;
          fake_norm = f (target_pre self) (Some False) [] fake;
          back = f (target_to_source self) training kwargs fake_norm
      in (Inr (fake, back,
               f (source_discriminator self) training kwargs x_norm,
               f (target_discriminator self) training kwargs fake_norm),
          (set_learning_phase training st)
            \<lparr>layers_state := layers_state st
               @ [(source_pre self, training, x), (source_to_target self, training, x_norm),
                  (target_pre self, Some False, fake), (target_to_source self, training, fake_norm),
                  (source_discriminator self, training, x_norm),
                  (target_discriminator self, training, fake_norm)]\<rparr>))
   \<and> CycleGAN_call (traced f) self x ''source'' training kwargs st =
     (let x_norm = f (target_pre self) training [] x;
          fake = f (target_to_source self) training kwargs x_norm;
          fake_norm = f (source_pre self) (Some False) [] fake;
          back = f (source_to_target self) training kwargs fake_norm
      in (Inr (fake, back,
               f (target_discriminator self) training kwargs x_norm,
               f (source_discriminator self) training kwargs fake_norm),
          (set_learning_phase training st)
            \<lparr>layers_state := layers_state st
               @ [(target_pre self, training, x), (target_to_source self, training, x_norm),
                  (source_pre self, Some False, fake), (source_to_target self, training, fake_norm),
                  (target_discriminator self, training, x_norm),
                  (source_discriminator self, training, fake_norm)]\<rparr>))
   \<and> (dest \<noteq> ''target'' \<and> dest \<noteq> ''source'' \<longrightarrow>
        CycleGAN_call fwd self x dest training kwargs st0
          = (Inl (NotImplementedError ''dest can only be either source or target''),
             set_learning_phase training st0))"
  by (simp add: CycleGAN_call_def traced_def set_learning_phase_def Let_def)

theorem cyclegan_call_witness:
  "''both'' \<noteq> ''target'' \<and> ''both'' \<noteq> ''source''
   \<and> CycleGAN_call (traced example_layers) example_gan ''x'' ''both'' (Some True) []
        \<lparr>learning_phase = 0, layers_state = []\<rparr>
      = (Inl (NotImplementedError ''dest can only be either source or target''),
         \<lparr>learning_phase = 1, layers_state = []\<rparr>)
   \<and> fst (CycleGAN_call (traced example_layers) example_gan ''x'' ''target'' (Some True) []
        \<lparr>learning_phase = 0, layers_state = []\<rparr>)
      = Inr (''G_ab(pre_a(x))'', ''G_ba(pre_b(G_ab(pre_a(x))))'', ''D_a(pre_a(x))'',
             ''D_b(pre_b(G_ab(pre_a(x))))'')"
proof -
  have d: "''both'' \<noteq> ''target'' \<and> ''both'' \<noteq> ''source''"
    by simp
  note t = cyclegan_call [where dest = "''both''" and fwd = "traced example_layers"
      and f = example_layers and self = example_gan and x = "''x''" and training = "Some True"
      and kwargs = "[]" and st = "\<lparr>learning_phase = 0, layers_state = []\<rparr>"
      and ?st0.0 = "\<lparr>learning_phase = 0, layers_state = []\<rparr>"]
  from t d have
    "CycleGAN_call (traced example_layers) example_gan ''x'' ''both'' (Some True) []
        \<lparr>learning_phase = 0, layers_state = []\<rparr>
      = (Inl (NotImplementedError ''dest can only be either source or target''),
         set_learning_phase (Some True) \<lparr>learning_phase = 0, layers_state = []\<rparr>)"
    by blast
  moreover from t have
    "fst (CycleGAN_call (traced example_layers) example_gan ''x'' ''target'' (Some True) []
        \<lparr>learning_phase = 0, layers_state = []\<rparr>)
      = Inr (''G_ab(pre_a(x))'', ''G_ba(pre_b(G_ab(pre_a(x))))'', ''D_a(pre_a(x))'',
             ''D_b(pre_b(G_ab(pre_a(x))))'')"
    by (simp add: Let_def example_layers_def example_gan_def)
  ultimately show ?thesis
    using d by (simp add: set_learning_phase_def)
qed

subsection \<open>The loss factories\<close>

lemma tf_slice_first_rows:
  assumes "wf_tensor t" and "k \<le> dim0 t"
  shows "tf_slice t (0, 0) (int k, - 1)
         = Inr \<lparr>dim0 = k, dim1 = dim1 t, elems = take k (elems t)\<rparr>"
proof -
  from assms have e0: "slice_extent (dim0 t) 0 (int k) = Inr (0, k)"
    by (auto simp: slice_extent_def Let_def)
  have e1: "slice_extent (dim1 t) 0 (- 1) = Inr (0, dim1 t)"
    by (simp add: slice_extent_def Let_def)
  from assms have "map (take (dim1 t)) (take k (elems t)) = take k (elems t)"
    by (intro map_take_rows) (auto simp: wf_tensor_def list_all_iff dest: in_set_takeD)
  then show ?thesis
    by (simp add: tf_slice_def e0 e1)
qed

text \<open>
  C2. For \<^verbatim>\<open>y_true\<close> and \<^verbatim>\<open>y_pred\<close> of \<^verbatim>\<open>n\<close> rows each, the loss of
  \<^verbatim>\<open>make_task_loss(adapt)\<close> is the categorical cross-entropy of the first
  \<^verbatim>\<open>n div 2\<close> rows of both when \<^verbatim>\<open>adapt\<close> is true and the training phase is active
  (the argument \<^verbatim>\<open>training\<close>, or the learning phase of the framework when the argument
  is \<^verbatim>\<open>None\<close>), and the cross-entropy of the full batch otherwise.
\<close>

theorem task_loss_masks_second_half:
  assumes "wf_tensor y_true" and "wf_tensor y_pred"
    and "dim0 y_true = n" and "dim0 y_pred = n"
  shows "make_task_loss cce adapt y_true y_pred training st =
           Inr (if adapt \<and> (case training of None \<Rightarrow> learning_phase st \<noteq> 0 | Some b \<Rightarrow> b)
                then cce \<lparr>dim0 = n div 2, dim1 = dim1 y_true, elems = take (n div 2) (elems y_true)\<rparr>
                         \<lparr>dim0 = n div 2, dim1 = dim1 y_pred, elems = take (n div 2) (elems y_pred)\<rparr>
                         None
                else cce y_true y_pred None)"
proof -
  have k: "int n div 2 = int (n div 2)"
    by simp
  have "n div 2 \<le> n"
    by simp
  with assms have
    "tf_slice y_pred (0, 0) (int (n div 2), - 1)
       = Inr \<lparr>dim0 = n div 2, dim1 = dim1 y_pred, elems = take (n div 2) (elems y_pred)\<rparr>"
    "tf_slice y_true (0, 0) (int (n div 2), - 1)
       = Inr \<lparr>dim0 = n div 2, dim1 = dim1 y_true, elems = take (n div 2) (elems y_true)\<rparr>"
    by (simp_all add: tf_slice_first_rows)
  with assms(4) show ?thesis
    by (simp add: make_task_loss_def Let_def k del: of_nat_div)
qed

theorem task_loss_masks_second_half_witness:
  "wf_tensor \<lparr>dim0 = 3, dim1 = 2, elems = [[1, 0], [0, 1], [0, 0 :: int]]\<rparr>
   \<and> wf_tensor \<lparr>dim0 = 3, dim1 = 2, elems = [[7, 3], [2, 8], [5, 5 :: int]]\<rparr>
   \<and> make_task_loss example_loss True
        \<lparr>dim0 = 3, dim1 = 2, elems = [[1, 0], [0, 1], [0, 0]]\<rparr>
        \<lparr>dim0 = 3, dim1 = 2, elems = [[7, 3], [2, 8], [5, 5]]\<rparr>
        None \<lparr>learning_phase = 1, layers_state = ()\<rparr>
      = Inr ([[1, 0]], [[7, 3]])
   \<and> make_task_loss example_loss True
        \<lparr>dim0 = 3, dim1 = 2, elems = [[1, 0], [0, 1], [0, 0]]\<rparr>
        \<lparr>dim0 = 3, dim1 = 2, elems = [[7, 3], [2, 8], [5, 5]]\<rparr>
        (Some False) \<lparr>learning_phase = 1, layers_state = ()\<rparr>
      = Inr ([[1, 0], [0, 1], [0, 0]], [[7, 3], [2, 8], [5, 5]])"
proof -
  have w: "wf_tensor \<lparr>dim0 = 3, dim1 = 2, elems = [[1, 0], [0, 1], [0, 0 :: int]]\<rparr>"
    "wf_tensor \<lparr>dim0 = 3, dim1 = 2, elems = [[7, 3], [2, 8], [5, 5 :: int]]\<rparr>"
    by (simp_all add: wf_tensor_def)
  have d: "dim0 \<lparr>dim0 = 3, dim1 = 2, elems = [[1, 0], [0, 1], [0, 0 :: int]]\<rparr> = 3"
    "dim0 \<lparr>dim0 = 3, dim1 = 2, elems = [[7, 3], [2, 8], [5, 5 :: int]]\<rparr> = 3"
    by simp_all
  note t = task_loss_masks_second_half [OF w d, of example_loss True]
  from t [of None "\<lparr>learning_phase = 1, layers_state = ()\<rparr>"]
    t [of "Some False" "\<lparr>learning_phase = 1, layers_state = ()\<rparr>"] w
  show ?thesis
    by (simp add: example_loss_def)
qed

lemma tf_slice_leading_rows:
  "tf_slice t (0, 0) (int k, - 1)
   = (if k \<le> dim0 t
      then Inr \<lparr>dim0 = k, dim1 = dim1 t, elems = map (take (dim1 t)) (take k (elems t))\<rparr>
      else Inl InvalidArgumentError)"
  by (simp add: tf_slice_def slice_extent_def Let_def)

text \<open>
  C3, as the code has it. The weighted loss is the categorical cross-entropy with the
  weights as sample weights; the mapping loss is the binary cross-entropy on logits;
  the domain loss is the binary cross-entropy on logits when \<^verbatim>\<open>use_domain_loss\<close> is
  true and the constant 0 when it is false. The task loss is the categorical
  cross-entropy of its two arguments when it does not mask, and of their first
  \<^verbatim>\<open>batch_size // 2\<close> rows when it masks, \<^verbatim>\<open>batch_size\<close> being the number of rows of
  \<^verbatim>\<open>y_pred\<close>; it raises in one case only, when it masks and \<^verbatim>\<open>y_true\<close> has fewer rows
  than that, where the slice of \<^verbatim>\<open>y_true\<close> itself raises.
\<close>

theorem losses_defer:
  "make_weighted_loss cce y_true y_pred weights training = cce y_true y_pred (Some weights)
   \<and> make_mapping_loss bce y_true y_pred = bce True y_true y_pred
   \<and> make_domain_loss bce use_domain_loss y_true y_pred
       = (if use_domain_loss then bce True y_true y_pred else 0)
   \<and> make_task_loss cce adapt y_true y_pred training0 st
       = (if adapt \<and> (case training0 of None \<Rightarrow> learning_phase st \<noteq> 0 | Some b \<Rightarrow> b)
          then if dim0 y_pred div 2 \<le> dim0 y_true
               then Inr (cce \<lparr>dim0 = dim0 y_pred div 2, dim1 = dim1 y_true,
                              elems = map (take (dim1 y_true))
                                        (take (dim0 y_pred div 2) (elems y_true))\<rparr>
                             \<lparr>dim0 = dim0 y_pred div 2, dim1 = dim1 y_pred,
                              elems = map (take (dim1 y_pred))
                                        (take (dim0 y_pred div 2) (elems y_pred))\<rparr>
                             None)
               else Inl InvalidArgumentError
          else Inr (cce y_true y_pred None))"
proof -
  have k: "int (dim0 y_pred) div 2 = int (dim0 y_pred div 2)"
    by simp
  have "make_task_loss cce adapt y_true y_pred training0 st
       = (if adapt \<and> (case training0 of None \<Rightarrow> learning_phase st \<noteq> 0 | Some b \<Rightarrow> b)
          then if dim0 y_pred div 2 \<le> dim0 y_true
               then Inr (cce \<lparr>dim0 = dim0 y_pred div 2, dim1 = dim1 y_true,
                              elems = map (take (dim1 y_true))
                                        (take (dim0 y_pred div 2) (elems y_true))\<rparr>
                             \<lparr>dim0 = dim0 y_pred div 2, dim1 = dim1 y_pred,
                              elems = map (take (dim1 y_pred))
                                        (take (dim0 y_pred div 2) (elems y_pred))\<rparr>
                             None)
               else Inl InvalidArgumentError
          else Inr (cce y_true y_pred None))"
    unfolding make_task_loss_def Let_def k tf_slice_leading_rows
    by simp
  then show ?thesis
    by (simp add: make_weighted_loss_def make_mapping_loss_def make_domain_loss_def)
qed

text \<open>
  The claim as it was written, that the domain loss is the binary cross-entropy for
  both values of \<^verbatim>\<open>use_domain_loss\<close>, fails when the flag is false: on the label 1 and
  the logit 0 the cross-entropy is \<^verbatim>\<open>ln 2\<close>, and the domain loss is 0.
\<close>

theorem domain_loss_counterexample:
  "make_domain_loss (\<lambda>from_logits. BinaryCrossentropy_from_logits) False
       \<lparr>dim0 = 1, dim1 = 1, elems = [[1]]\<rparr> \<lparr>dim0 = 1, dim1 = 1, elems = [[0]]\<rparr>
     \<noteq> BinaryCrossentropy_from_logits
         \<lparr>dim0 = 1, dim1 = 1, elems = [[1]]\<rparr> \<lparr>dim0 = 1, dim1 = 1, elems = [[0]]\<rparr>"
proof -
  have "BinaryCrossentropy_from_logits
         \<lparr>dim0 = 1, dim1 = 1, elems = [[1]]\<rparr> \<lparr>dim0 = 1, dim1 = 1, elems = [[0]]\<rparr> = ln 2"
    by (simp add: BinaryCrossentropy_from_logits_def mean_def)
  moreover have "ln (2::real) \<noteq> 0"
    by simp
  ultimately show ?thesis
    by (simp add: make_domain_loss_def)
qed

end
